theory Spec2Isabelle
  imports Complex_Main
begin

section \<open>ArUco marker pose estimation: data model\<close>

text \<open>
  The development embeds the pose-estimation module of the repository
  (\<^verbatim>\<open>estimateSingleMarkerPose\<close>, \<^verbatim>\<open>fusePoses\<close>, \<^verbatim>\<open>markerToWorld\<close>,
  \<^verbatim>\<open>rotationMatrixToEuler\<close>, \<^verbatim>\<open>cameraRotationInWorld\<close>) together with the
  interfaces of \<^verbatim>\<open>lib/types.ts\<close> and the marker table of \<^verbatim>\<open>lib/constants.ts\<close>.

  A TypeScript \<^verbatim>\<open>number\<close> is modelled as a \<^typ>\<open>real\<close>: arithmetic is exact, and the
  rounding, the signed zeros, the infinities and NaN of IEEE-754 doubles are outside the
  model. \<^verbatim>\<open>Math.cos\<close>, \<^verbatim>\<open>Math.sin\<close>, \<^verbatim>\<open>Math.sqrt\<close> and \<^verbatim>\<open>Math.PI\<close> are the
  real functions \<^const>\<open>cos\<close>, \<^const>\<open>sin\<close>, \<^const>\<open>sqrt\<close> and the constant \<^const>\<open>pi\<close>.
  Marker identifiers, which the detector reads from a 32-bit integer matrix, are
  integers.
\<close>

subsection \<open>The interfaces of \<^verbatim>\<open>lib/types.ts\<close>\<close>

record Point2D =
  x :: real
  y :: real

record Point3D =
  x :: real
  y :: real
  z :: real

record EulerAngles =
  x :: real
  y :: real
  z :: real

text \<open>The field \<^verbatim>\<open>id\<close> is written \<open>id'\<close>, the name \<open>id\<close> being the identity of HOL.\<close>

record MarkerDetection =
  id' :: int
  corners :: "Point2D \<times> Point2D \<times> Point2D \<times> Point2D"

record PoseEstimation =
  position :: Point3D
  rotation :: EulerAngles
  rvec :: "real \<times> real \<times> real"
  tvec :: "real \<times> real \<times> real"
  markerId :: int

record PoseResult =
  poses :: "PoseEstimation list"
  cameraPosition :: Point3D
  cameraRotation :: EulerAngles
  detectedMarkerIds :: "int list"
  timestamp :: real

datatype MarkerFace = Front | Top | Right | Back | Left

record MarkerDefinition =
  id' :: int
  face :: MarkerFace
  normal :: Point3D
  center :: Point3D
  rotationToWorld :: EulerAngles

section \<open>Pose fusion\<close>

text \<open>
  \<^verbatim>\<open>fusePoses\<close> reads the clock (\<^verbatim>\<open>Date.now()\<close>) for the \<^verbatim>\<open>timestamp\<close> field. The
  reading is the first argument \<open>now\<close> of the model. Each
  \<^verbatim>\<open>poses.reduce((s, p) => s + f(p), 0)\<close> is a left fold from \<open>0\<close>.
\<close>

definition fusePoses :: "real \<Rightarrow> PoseEstimation list \<Rightarrow> PoseResult" where
  "fusePoses now ps =
     (if length ps = 0 then
        \<lparr> poses = [],
          cameraPosition = \<lparr> Point3D.x = 0, y = 0, z = 0 \<rparr>,
          cameraRotation = \<lparr> EulerAngles.x = 0, y = 0, z = 0 \<rparr>,
          detectedMarkerIds = [],
          timestamp = now \<rparr>
      else
        let n = real (length ps);
            avgPos = \<lparr> Point3D.x = foldl (\<lambda>s p. s + Point3D.x (position p)) 0 ps / n,
                       y = foldl (\<lambda>s p. s + Point3D.y (position p)) 0 ps / n,
                       z = foldl (\<lambda>s p. s + Point3D.z (position p)) 0 ps / n \<rparr>;
            avgRot = \<lparr> EulerAngles.x = foldl (\<lambda>s p. s + EulerAngles.x (rotation p)) 0 ps / n,
                       y = foldl (\<lambda>s p. s + EulerAngles.y (rotation p)) 0 ps / n,
                       z = foldl (\<lambda>s p. s + EulerAngles.z (rotation p)) 0 ps / n \<rparr>
        in \<lparr> poses = ps,
             cameraPosition = avgPos,
             cameraRotation = avgRot,
             detectedMarkerIds = map markerId ps,
             timestamp = now \<rparr>)"

section \<open>Coordinate transform helpers\<close>

text \<open>
  \<^verbatim>\<open>markerToWorld\<close>: the rotation by the Euler angles \<open>rot\<close> (radians) as three
  single-axis rotations, about X, then Y, then Z, followed by the translation by
  \<open>markerCenter\<close>.
\<close>

definition markerToWorld :: "Point3D \<Rightarrow> Point3D \<Rightarrow> EulerAngles \<Rightarrow> Point3D" where
  "markerToWorld point markerCenter rot =
     (let rx = EulerAngles.x rot; ry = EulerAngles.y rot; rz = EulerAngles.z rot;
          cx = cos rx; sx = sin rx;
          cy = cos ry; sy = sin ry;
          cz = cos rz; sz = sin rz;
          px = Point3D.x point; py = Point3D.y point; pz = Point3D.z point;
          y1 = cx * py - sx * pz;
          z1 = sx * py + cx * pz;
          x2 = cy * px + sy * z1;
          z2 = - sy * px + cy * z1;
          x3 = cz * x2 - sz * y1;
          y3 = sz * x2 + cz * y1
      in \<lparr> Point3D.x = x3 + Point3D.x markerCenter,
           y = y3 + Point3D.y markerCenter,
           z = z2 + Point3D.z markerCenter \<rparr>)"

text \<open>
  \<^verbatim>\<open>Math.atan2(b, a)\<close> on real arguments: the angle in \<open>(-\<pi>, \<pi>]\<close> of the point
  \<open>(a, b)\<close>, and \<open>0\<close> at the origin (the value ECMAScript gives for \<open>+0, +0\<close>).
\<close>

definition atan2 :: "real \<Rightarrow> real \<Rightarrow> real" where
  "atan2 b a =
     (if 0 < a then arctan (b / a)
      else if a < 0 then (if 0 \<le> b then arctan (b / a) + pi else arctan (b / a) - pi)
      else if 0 < b then pi / 2
      else if b < 0 then - (pi / 2)
      else 0)"

text \<open>
  A \<^verbatim>\<open>Float64Array\<close> of nine entries, the row-major 3\<times>3 matrix, is a list of reals
  read by index. The source reads indices \<open>0..8\<close> only; the theorems below are about
  lists of length nine.
\<close>

definition rotationMatrixToEuler :: "real list \<Rightarrow> EulerAngles" where
  "rotationMatrixToEuler R =
     (let sy = sqrt (R ! 0 * R ! 0 + R ! 3 * R ! 3);
          singular = (sy < 1 / 1000000);
          (ex, ey, ez) =
            (if \<not> singular then
               (atan2 (R ! 7) (R ! 8), atan2 (- (R ! 6)) sy, atan2 (R ! 3) (R ! 0))
             else
               (atan2 (- (R ! 5)) (R ! 4), atan2 (- (R ! 6)) sy, 0));
          RAD2DEG = 180 / pi
      in \<lparr> EulerAngles.x = ex * RAD2DEG, y = ey * RAD2DEG, z = ez * RAD2DEG \<rparr>)"

text \<open>
  Step 2 of \<^verbatim>\<open>cameraRotationInWorld\<close> (the array \<^verbatim>\<open>Rm2w\<close>, row-major
  \<open>Rz \<cdot> Ry \<cdot> Rx\<close>), which the source writes inline. It is named here because the
  round-trip law and the equivalence with \<^verbatim>\<open>markerToWorld\<close> are about it.
\<close>

definition eulerToMatrix :: "EulerAngles \<Rightarrow> real list" where
  "eulerToMatrix markerRot =
     (let rx = EulerAngles.x markerRot; ry = EulerAngles.y markerRot; rz = EulerAngles.z markerRot;
          cx = cos rx; sx = sin rx;
          cy = cos ry; sy = sin ry;
          cz = cos rz; sz = sin rz;
          m00 = cz * cy; m01 = cz * sy * sx - sz * cx; m02 = cz * sy * cx + sz * sx;
          m10 = sz * cy; m11 = sz * sy * sx + cz * cx; m12 = sz * sy * cx - cz * sx;
          m20 = - sy; m21 = cy * sx; m22 = cy * cx
      in [m00, m01, m02, m10, m11, m12, m20, m21, m22])"

text \<open>
  \<^verbatim>\<open>cameraRotationInWorld\<close>: both \<^verbatim>\<open>for\<close> loops run over \<open>0, 1, 2\<close> and write into
  a fresh zero-filled array, so each is a fold of list updates over \<open>[0..<3]\<close>.
\<close>

definition cameraRotationInWorld :: "real list \<Rightarrow> EulerAngles \<Rightarrow> real list" where
  "cameraRotationInWorld R markerRot =
     (let RtC = foldl (\<lambda>RtC i. RtC[i * 3 + 0 := R ! (0 * 3 + i),
                                   i * 3 + 1 := - (R ! (1 * 3 + i)),
                                   i * 3 + 2 := - (R ! (2 * 3 + i))])
                  (replicate 9 0) [0..<3];
          Rm2w = eulerToMatrix markerRot
      in foldl (\<lambda>out i.
           foldl (\<lambda>out j. out[i * 3 + j :=
                     Rm2w ! (i * 3 + 0) * RtC ! (0 * 3 + j) +
                     Rm2w ! (i * 3 + 1) * RtC ! (1 * 3 + j) +
                     Rm2w ! (i * 3 + 2) * RtC ! (2 * 3 + j)])
             out [0..<3])
           (replicate 9 0) [0..<3])"

section \<open>Constants of \<^verbatim>\<open>lib/constants.ts\<close>\<close>

definition CUBE_SIZE :: real where
  "CUBE_SIZE = 12 / 100"

definition MARKER_SIZE :: real where
  "MARKER_SIZE = 9 / 100"

definition HALF_CUBE :: real where
  "HALF_CUBE = CUBE_SIZE / 2"

definition MARKER_DEFINITIONS :: "MarkerDefinition list" where
  "MARKER_DEFINITIONS =
     [ \<lparr> MarkerDefinition.id' = 0, face = Front,
         normal = \<lparr> Point3D.x = 0, y = 0, z = 1 \<rparr>,
         center = \<lparr> Point3D.x = 0, y = 0, z = HALF_CUBE \<rparr>,
         rotationToWorld = \<lparr> EulerAngles.x = 0, y = 0, z = 0 \<rparr> \<rparr>,
       \<lparr> MarkerDefinition.id' = 1, face = Top,
         normal = \<lparr> Point3D.x = 0, y = 1, z = 0 \<rparr>,
         center = \<lparr> Point3D.x = 0, y = HALF_CUBE, z = 0 \<rparr>,
         rotationToWorld = \<lparr> EulerAngles.x = - pi / 2, y = 0, z = 0 \<rparr> \<rparr>,
       \<lparr> MarkerDefinition.id' = 2, face = Right,
         normal = \<lparr> Point3D.x = 1, y = 0, z = 0 \<rparr>,
         center = \<lparr> Point3D.x = HALF_CUBE, y = 0, z = 0 \<rparr>,
         rotationToWorld = \<lparr> EulerAngles.x = 0, y = - pi / 2, z = 0 \<rparr> \<rparr>,
       \<lparr> MarkerDefinition.id' = 3, face = Back,
         normal = \<lparr> Point3D.x = 0, y = 0, z = - 1 \<rparr>,
         center = \<lparr> Point3D.x = 0, y = 0, z = - HALF_CUBE \<rparr>,
         rotationToWorld = \<lparr> EulerAngles.x = 0, y = pi, z = 0 \<rparr> \<rparr>,
       \<lparr> MarkerDefinition.id' = 4, face = Left,
         normal = \<lparr> Point3D.x = - 1, y = 0, z = 0 \<rparr>,
         center = \<lparr> Point3D.x = - HALF_CUBE, y = 0, z = 0 \<rparr>,
         rotationToWorld = \<lparr> EulerAngles.x = 0, y = pi / 2, z = 0 \<rparr> \<rparr> ]"

record CameraIntrinsics =
  fx :: real
  fy :: real
  cx :: real
  cy :: real

definition DEFAULT_CAMERA_INTRINSICS :: CameraIntrinsics where
  "DEFAULT_CAMERA_INTRINSICS = \<lparr> fx = 600, fy = 600, cx = 320, cy = 240 \<rparr>"

definition DEFAULT_DIST_COEFFS :: "real list" where
  "DEFAULT_DIST_COEFFS = [0, 0, 0, 0, 0]"

section \<open>Single-marker pose estimation\<close>

text \<open>
  The OpenCV object \<^verbatim>\<open>cv\<close> is a parameter of \<^verbatim>\<open>estimateSingleMarkerPose\<close>; the
  model keeps the three members the function uses. \<^verbatim>\<open>solvePnP\<close> returns its success
  flag and writes the matrices \<^verbatim>\<open>rvec\<close> and \<^verbatim>\<open>tvec\<close>: here it returns the flag
  together with the three entries of each. \<^verbatim>\<open>Rodrigues\<close> writes the matrix
  \<^verbatim>\<open>rotMat\<close>: here it returns its \<^verbatim>\<open>data64F\<close>. A matrix built by
  \<^verbatim>\<open>matFromArray\<close> is the list of its entries.

  Both calls may throw instead of returning. The function runs them inside
  \<^verbatim>\<open>try { ... } finally { ... }\<close> with no \<^verbatim>\<open>catch\<close>: the \<^verbatim>\<open>finally\<close> block releases
  the matrices, which has no counterpart here, and the exception then leaves the
  function. An outcome is therefore a sum: \<open>Inl e\<close> is the exception \<open>e\<close> thrown,
  \<open>Inr v\<close> is the value \<open>v\<close> returned, and \<open>Inr None\<close> is the \<^verbatim>\<open>null\<close> of the
  source. The value thrown is identified by a number. The construction of the matrices
  before the \<^verbatim>\<open>try\<close> block is taken to succeed.
\<close>

datatype error = CvException nat

record OpenCV =
  solvePnP :: "real list \<Rightarrow> real list \<Rightarrow> real list \<Rightarrow> real list \<Rightarrow> bool \<Rightarrow> int
                 \<Rightarrow> error + bool \<times> (real \<times> real \<times> real) \<times> (real \<times> real \<times> real)"
  Rodrigues :: "real \<times> real \<times> real \<Rightarrow> error + real list"
  SOLVEPNP_IPPE_SQUARE :: int

definition HALF :: real where
  "HALF = MARKER_SIZE / 2"

text \<open>
  The call of the solver as \<^verbatim>\<open>estimateSingleMarkerPose\<close> makes it: the four object
  points, the four detected corners, the camera matrix, the distortion coefficients, no
  extrinsic guess, the square-marker mode.
\<close>

definition solvePnP_call ::
  "OpenCV \<Rightarrow> MarkerDetection
     \<Rightarrow> error + bool \<times> (real \<times> real \<times> real) \<times> (real \<times> real \<times> real)" where
  "solvePnP_call cv marker =
     (let objectPoints = [- HALF, HALF, 0,
                          HALF, HALF, 0,
                          HALF, - HALF, 0,
                          - HALF, - HALF, 0];
          (c0, c1, c2, c3) = corners marker;
          imagePoints = [Point2D.x c0, Point2D.y c0,
                         Point2D.x c1, Point2D.y c1,
                         Point2D.x c2, Point2D.y c2,
                         Point2D.x c3, Point2D.y c3];
          cameraMat = [fx DEFAULT_CAMERA_INTRINSICS, 0, cx DEFAULT_CAMERA_INTRINSICS,
                       0, fy DEFAULT_CAMERA_INTRINSICS, cy DEFAULT_CAMERA_INTRINSICS,
                       0, 0, 1];
          distCoeffs = DEFAULT_DIST_COEFFS
      in solvePnP cv objectPoints imagePoints cameraMat distCoeffs False
           (SOLVEPNP_IPPE_SQUARE cv))"

definition estimateSingleMarkerPose ::
  "OpenCV \<Rightarrow> MarkerDetection \<Rightarrow> error + PoseEstimation option" where
  "estimateSingleMarkerPose cv marker =
     (case find (\<lambda>m. MarkerDefinition.id' m = MarkerDetection.id' marker) MARKER_DEFINITIONS of
        None \<Rightarrow> Inr None
      | Some def \<Rightarrow>
          (case solvePnP_call cv marker of
             Inl e \<Rightarrow> Inl e
           | Inr (ok, rv, tv) \<Rightarrow>
               if \<not> ok then Inr None
               else
                 (case tv of
                    (tv0, tv1, tv2) \<Rightarrow>
                      (case Rodrigues cv rv of
                         Inl e \<Rightarrow> Inl e
                       | Inr R \<Rightarrow>
                           let camInMarker =
                                 \<lparr> Point3D.x = - (R ! 0 * tv0 + R ! 3 * tv1 + R ! 6 * tv2),
                                   y = - (R ! 1 * tv0 + R ! 4 * tv1 + R ! 7 * tv2),
                                   z = - (R ! 2 * tv0 + R ! 5 * tv1 + R ! 8 * tv2) \<rparr>;
                               worldPos =
                                 markerToWorld camInMarker (center def) (rotationToWorld def);
                               worldRotMat = cameraRotationInWorld R (rotationToWorld def);
                               worldRot = rotationMatrixToEuler worldRotMat
                           in Inr (Some \<lparr> position = worldPos,
                                           rotation = worldRot,
                                           rvec = rv,
                                           tvec = tv,
                                           markerId = MarkerDetection.id' marker \<rparr>)))))"

section \<open>Reference notions of the specification\<close>

text \<open>
  The definitions of this section are not translations of source functions. They state,
  in the usual mathematical form, the notions the specification uses to describe the
  code: the arithmetic mean, 3\<times>3 matrices in row-major order with their product,
  transpose and action on a point, the three single-axis rotations, and the conversion
  of an angle triple from radians to degrees. The theorems compare the source functions
  with them.
\<close>

definition arithmetic_mean :: "real list \<Rightarrow> real" where
  "arithmetic_mean vs = sum_list vs / real (length vs)"

definition mat_entry :: "real list \<Rightarrow> nat \<Rightarrow> nat \<Rightarrow> real" where
  "mat_entry M i j = M ! (i * 3 + j)"

definition mat_mul :: "real list \<Rightarrow> real list \<Rightarrow> real list" where
  "mat_mul A B =
     concat (map (\<lambda>i. map (\<lambda>j. \<Sum>k\<leftarrow>[0..<3]. mat_entry A i k * mat_entry B k j) [0..<3]) [0..<3])"

definition mat_transpose :: "real list \<Rightarrow> real list" where
  "mat_transpose A = concat (map (\<lambda>i. map (\<lambda>j. mat_entry A j i) [0..<3]) [0..<3])"

definition mat_diag :: "real \<Rightarrow> real \<Rightarrow> real \<Rightarrow> real list" where
  "mat_diag a b c = [a, 0, 0,
                     0, b, 0,
                     0, 0, c]"

definition mat_vec :: "real list \<Rightarrow> Point3D \<Rightarrow> Point3D" where
  "mat_vec M p =
     \<lparr> Point3D.x = mat_entry M 0 0 * Point3D.x p + mat_entry M 0 1 * Point3D.y p
                     + mat_entry M 0 2 * Point3D.z p,
       y = mat_entry M 1 0 * Point3D.x p + mat_entry M 1 1 * Point3D.y p
             + mat_entry M 1 2 * Point3D.z p,
       z = mat_entry M 2 0 * Point3D.x p + mat_entry M 2 1 * Point3D.y p
             + mat_entry M 2 2 * Point3D.z p \<rparr>"

definition vec_add :: "Point3D \<Rightarrow> Point3D \<Rightarrow> Point3D" where
  "vec_add p q = \<lparr> Point3D.x = Point3D.x p + Point3D.x q,
                   y = Point3D.y p + Point3D.y q,
                   z = Point3D.z p + Point3D.z q \<rparr>"

definition vec_neg :: "Point3D \<Rightarrow> Point3D" where
  "vec_neg p = \<lparr> Point3D.x = - Point3D.x p, y = - Point3D.y p, z = - Point3D.z p \<rparr>"

definition vec_of :: "real \<times> real \<times> real \<Rightarrow> Point3D" where
  "vec_of t = (case t of (t0, t1, t2) \<Rightarrow> \<lparr> Point3D.x = t0, y = t1, z = t2 \<rparr>)"

definition rot_x :: "real \<Rightarrow> real list" where
  "rot_x a = [1, 0, 0,
              0, cos a, - sin a,
              0, sin a, cos a]"

definition rot_y :: "real \<Rightarrow> real list" where
  "rot_y a = [cos a, 0, sin a,
              0, 1, 0,
              - sin a, 0, cos a]"

definition rot_z :: "real \<Rightarrow> real list" where
  "rot_z a = [cos a, - sin a, 0,
              sin a, cos a, 0,
              0, 0, 1]"

definition degrees :: "EulerAngles \<Rightarrow> EulerAngles" where
  "degrees a = \<lparr> EulerAngles.x = EulerAngles.x a * (180 / pi),
                 y = EulerAngles.y a * (180 / pi),
                 z = EulerAngles.z a * (180 / pi) \<rparr>"

section \<open>Example data\<close>

text \<open>
  Concrete inputs at which the theorems below are instantiated: two pose estimations, a
  detection with a given identifier, and a stub of the OpenCV object whose solver and
  whose Rodrigues conversion have a fixed outcome each: \<open>solved ok\<close> is the solver
  returning the flag \<open>ok\<close> with the rotation vector \<open>(0, 0, 0)\<close> and the translation
  vector \<open>(0, 0, 1)\<close>, and \<open>identity_matrix\<close> is the conversion returning the identity.
\<close>

definition example_pose_a :: PoseEstimation where
  "example_pose_a =
     \<lparr> position = \<lparr> Point3D.x = 0, y = 0, z = 0 \<rparr>,
       rotation = \<lparr> EulerAngles.x = 10, y = 20, z = 30 \<rparr>,
       rvec = (0, 0, 0), tvec = (0, 0, 1), markerId = 0 \<rparr>"

definition example_pose_b :: PoseEstimation where
  "example_pose_b =
     \<lparr> position = \<lparr> Point3D.x = 2, y = 2, z = 2 \<rparr>,
       rotation = \<lparr> EulerAngles.x = 20, y = 40, z = 60 \<rparr>,
       rvec = (0, 0, 0), tvec = (0, 0, 1), markerId = 3 \<rparr>"

definition solved :: "bool \<Rightarrow> error + bool \<times> (real \<times> real \<times> real) \<times> (real \<times> real \<times> real)" where
  "solved ok = Inr (ok, (0, 0, 0), (0, 0, 1))"

definition identity_matrix :: "error + real list" where
  "identity_matrix = Inr [1, 0, 0, 0, 1, 0, 0, 0, 1]"

definition stub_cv ::
  "(error + bool \<times> (real \<times> real \<times> real) \<times> (real \<times> real \<times> real)) \<Rightarrow> (error + real list) \<Rightarrow> OpenCV" where
  "stub_cv solver_outcome rodrigues_outcome =
     \<lparr> solvePnP = (\<lambda>objectPoints imagePoints cameraMat distCoeffs guess flags.
                     solver_outcome),
       Rodrigues = (\<lambda>rv. rodrigues_outcome),
       SOLVEPNP_IPPE_SQUARE = 7 \<rparr>"

definition example_marker :: "int \<Rightarrow> MarkerDetection" where
  "example_marker i =
     \<lparr> MarkerDetection.id' = i,
       corners = (\<lparr> Point2D.x = 293, y = 213 \<rparr>, \<lparr> Point2D.x = 347, y = 213 \<rparr>,
                  \<lparr> Point2D.x = 347, y = 267 \<rparr>, \<lparr> Point2D.x = 293, y = 267 \<rparr>) \<rparr>"

section \<open>Auxiliary facts\<close>

subsection \<open>Folds, small lists and matrix products\<close>

lemma foldl_add_sum_list:
  "foldl (\<lambda>s p. s + f p) (a::real) ps = a + sum_list (map f ps)"
  by (induction ps arbitrary: a) simp_all

lemma upt_3: "[0..<3] = [0, 1, 2]"
  by (simp add: upt_rec)

lemma replicate_9: "replicate 9 (v::real) = [v, v, v, v, v, v, v, v, v]"
  by (simp add: numeral_eq_Suc)

lemma eulerToMatrix_product:
  "eulerToMatrix r =
     mat_mul (rot_z (EulerAngles.z r)) (mat_mul (rot_y (EulerAngles.y r)) (rot_x (EulerAngles.x r)))"
  by (simp add: eulerToMatrix_def mat_mul_def mat_entry_def rot_x_def rot_y_def rot_z_def
        upt_3 Let_def algebra_simps)

lemma cameraRotationInWorld_product:
  "cameraRotationInWorld R r =
     mat_mul (eulerToMatrix r) (mat_mul (mat_transpose R) (mat_diag 1 (- 1) (- 1)))"
  by (simp add: cameraRotationInWorld_def eulerToMatrix_def mat_mul_def mat_entry_def
        mat_transpose_def mat_diag_def upt_3 replicate_9 Let_def)

subsection \<open>Trigonometry: a bound on the cosine, and the angle of a point on the circle\<close>

lemma abs_sin_mult_le: "\<bar>sin (real n * u)\<bar> \<le> real n * \<bar>sin u\<bar>"
proof (induction n)
  case 0
  show ?case by simp
next
  case (Suc n)
  have "sin (real (Suc n) * u) = sin (real n * u) * cos u + cos (real n * u) * sin u"
    by (simp add: distrib_right sin_add)
  also have "\<bar>\<dots>\<bar> \<le> \<bar>sin (real n * u) * cos u\<bar> + \<bar>cos (real n * u) * sin u\<bar>"
    by (rule abs_triangle_ineq)
  also have "\<dots> \<le> \<bar>sin (real n * u)\<bar> * 1 + 1 * \<bar>sin u\<bar>"
    unfolding abs_mult
    by (intro add_mono mult_mono) (simp_all add: abs_cos_le_one)
  also have "\<dots> \<le> real n * \<bar>sin u\<bar> + \<bar>sin u\<bar>"
    using Suc.IH by simp
  finally show ?case
    by (simp add: distrib_right)
qed

lemma sin_one_degree: "1 / 90 \<le> sin (pi / 180)"
proof -
  have "\<bar>sin (real 90 * (pi / 180))\<bar> \<le> real 90 * \<bar>sin (pi / 180)\<bar>"
    by (rule abs_sin_mult_le)
  moreover have "real 90 * (pi / 180) = pi / 2"
    by simp
  moreover have "0 \<le> sin (pi / 180)"
    by (rule sin_ge_zero) (use pi_gt_zero in simp_all)
  ultimately show ?thesis
    by simp
qed

lemma cos_pitch_bound:
  assumes "\<bar>t\<bar> < 89 * pi / 180"
  shows "1 / 90 < cos t"
proof -
  have "cos (89 * pi / 180) < cos \<bar>t\<bar>"
    by (rule cos_monotone_0_pi) (use assms pi_gt_zero in simp_all)
  moreover have "cos (89 * pi / 180) = sin (pi / 180)"
  proof -
    have "89 * pi / 180 = pi / 2 - pi / 180" by simp
    then show ?thesis using sin_cos_eq [of "pi / 180 :: real"] by simp
  qed
  ultimately show ?thesis
    using sin_one_degree by simp
qed

lemma atan2_scale:
  assumes "0 < k"
  shows "atan2 (k * b) (k * a) = atan2 b a"
  using assms by (simp add: atan2_def zero_less_mult_iff mult_less_0_iff zero_le_mult_iff)

lemma atan2_sin_cos:
  assumes "- pi < t" "t \<le> pi"
  shows "atan2 (sin t) (cos t) = t"
proof -
  consider "- (pi / 2) < t \<and> t < pi / 2" | "t = pi / 2" | "t = - (pi / 2)"
    | "pi / 2 < t" | "t < - (pi / 2)"
    by linarith
  then show ?thesis
  proof cases
    case 1
    then have "0 < cos t" by (simp add: cos_gt_zero_pi)
    moreover have "arctan (sin t / cos t) = t"
      using arctan_tan [of t] 1 by (simp add: tan_def)
    ultimately show ?thesis
      by (simp add: atan2_def)
  next
    case 2
    show ?thesis unfolding 2 by (simp add: atan2_def)
  next
    case 3
    show ?thesis unfolding 3 by (simp add: atan2_def)
  next
    case 4
    have c: "cos t < 0"
      using cos_gt_zero_pi [of "t - pi"] 4 assms by simp
    have s: "0 \<le> sin t"
      using 4 assms pi_gt_zero by (intro sin_ge_zero) linarith+
    have "arctan (sin t / cos t) = arctan (tan (t - pi))"
      by (simp add: tan_def)
    also have "\<dots> = t - pi"
      using 4 assms by (intro arctan_tan) linarith+
    finally show ?thesis
      using c s by (simp add: atan2_def)
  next
    case 5
    have c: "cos t < 0"
      using cos_gt_zero_pi [of "t + pi"] 5 assms by simp
    have s: "sin t < 0"
      using sin_gt_zero [of "- t"] 5 assms pi_gt_zero by simp
    have "arctan (sin t / cos t) = arctan (tan (t + pi))"
      by (simp add: tan_def)
    also have "\<dots> = t + pi"
      using 5 assms by (intro arctan_tan) linarith+
    finally show ?thesis
      using c s by (simp add: atan2_def)
  qed
qed

subsection \<open>Euler extraction on each branch, and on a matrix built from Euler angles\<close>

lemma rotationMatrixToEuler_regular:
  assumes "1 / 1000000 \<le> sqrt (R ! 0 * R ! 0 + R ! 3 * R ! 3)"
  shows "rotationMatrixToEuler R =
           degrees \<lparr> EulerAngles.x = atan2 (R ! 7) (R ! 8),
                     y = atan2 (- (R ! 6)) (sqrt (R ! 0 * R ! 0 + R ! 3 * R ! 3)),
                     z = atan2 (R ! 3) (R ! 0) \<rparr>"
  using assms by (simp add: rotationMatrixToEuler_def degrees_def Let_def)

lemma rotationMatrixToEuler_singular:
  assumes "sqrt (R ! 0 * R ! 0 + R ! 3 * R ! 3) < 1 / 1000000"
  shows "rotationMatrixToEuler R =
           degrees \<lparr> EulerAngles.x = atan2 (- (R ! 5)) (R ! 4),
                     y = atan2 (- (R ! 6)) (sqrt (R ! 0 * R ! 0 + R ! 3 * R ! 3)),
                     z = 0 \<rparr>"
  using assms by (simp add: rotationMatrixToEuler_def degrees_def Let_def)

lemma sy_eulerToMatrix:
  "sqrt (eulerToMatrix a ! 0 * eulerToMatrix a ! 0 + eulerToMatrix a ! 3 * eulerToMatrix a ! 3)
     = \<bar>cos (EulerAngles.y a)\<bar>"
proof -
  let ?cy = "cos (EulerAngles.y a)" and ?cz = "cos (EulerAngles.z a)" and ?sz = "sin (EulerAngles.z a)"
  have "?cz * ?cy * (?cz * ?cy) + ?sz * ?cy * (?sz * ?cy) = (?sz\<^sup>2 + ?cz\<^sup>2) * ?cy\<^sup>2"
    by (simp only: power2_eq_square algebra_simps)
  also have "\<dots> = ?cy\<^sup>2"
    by simp
  finally show ?thesis
    by (simp add: eulerToMatrix_def Let_def)
qed

subsection \<open>The camera centre in the marker frame\<close>

lemma camInMarker_extrinsic_inverse:
  "vec_neg (mat_vec (mat_transpose R) (vec_of (tv0, tv1, tv2))) =
     \<lparr> Point3D.x = - (R ! 0 * tv0 + R ! 3 * tv1 + R ! 6 * tv2),
       y = - (R ! 1 * tv0 + R ! 4 * tv1 + R ! 7 * tv2),
       z = - (R ! 2 * tv0 + R ! 5 * tv1 + R ! 8 * tv2) \<rparr>"
  by (simp add: vec_neg_def mat_vec_def mat_transpose_def mat_entry_def vec_of_def upt_3)

section \<open>Properties of pose fusion\<close>

text \<open>
  Claim C1. For a non-empty list of estimations, the fused position is the arithmetic
  mean of the positions and the fused rotation the arithmetic mean of the rotations
  (degrees), each axis on its own; \<open>detectedMarkerIds\<close> lists the marker of each
  estimation in the order received, and \<open>poses\<close> is the input list. For a single
  estimation \<open>e\<close> the fused position is \<open>position e\<close>, the fused rotation is
  \<open>rotation e\<close> and the identifiers are \<open>[markerId e]\<close>.
\<close>

theorem fusePoses_mean:
  "ps \<noteq> [] \<Longrightarrow>
     cameraPosition (fusePoses now ps) =
       \<lparr> Point3D.x = arithmetic_mean (map (\<lambda>p. Point3D.x (position p)) ps),
         y = arithmetic_mean (map (\<lambda>p. Point3D.y (position p)) ps),
         z = arithmetic_mean (map (\<lambda>p. Point3D.z (position p)) ps) \<rparr> \<and>
     cameraRotation (fusePoses now ps) =
       \<lparr> EulerAngles.x = arithmetic_mean (map (\<lambda>p. EulerAngles.x (rotation p)) ps),
         y = arithmetic_mean (map (\<lambda>p. EulerAngles.y (rotation p)) ps),
         z = arithmetic_mean (map (\<lambda>p. EulerAngles.z (rotation p)) ps) \<rparr> \<and>
     detectedMarkerIds (fusePoses now ps) = map markerId ps \<and>
     poses (fusePoses now ps) = ps \<and>
     cameraPosition (fusePoses now [e]) = position e \<and>
     cameraRotation (fusePoses now [e]) = rotation e \<and>
     detectedMarkerIds (fusePoses now [e]) = [markerId e] \<and>
     poses (fusePoses now [e]) = [e]"
  by (simp add: fusePoses_def arithmetic_mean_def foldl_add_sum_list Let_def)

text \<open>
  The instance of the specification: positions \<open>(0, 0, 0)\<close> and \<open>(2, 2, 2)\<close>
  fuse to \<open>(1, 1, 1)\<close>.
\<close>

theorem fusePoses_mean_witness:
  "[example_pose_a, example_pose_b] \<noteq> [] \<and>
   cameraPosition (fusePoses 1000 [example_pose_a, example_pose_b]) =
     \<lparr> Point3D.x = 1, y = 1, z = 1 \<rparr> \<and>
   cameraRotation (fusePoses 1000 [example_pose_a, example_pose_b]) =
     \<lparr> EulerAngles.x = 15, y = 30, z = 45 \<rparr> \<and>
   detectedMarkerIds (fusePoses 1000 [example_pose_a, example_pose_b]) = [0, 3] \<and>
   poses (fusePoses 1000 [example_pose_a, example_pose_b]) = [example_pose_a, example_pose_b] \<and>
   cameraPosition (fusePoses 1000 [example_pose_b]) = \<lparr> Point3D.x = 2, y = 2, z = 2 \<rparr>"
  using fusePoses_mean [of "[example_pose_a, example_pose_b]" 1000 example_pose_b]
  by (simp add: arithmetic_mean_def example_pose_a_def example_pose_b_def)

text \<open>
  Claim C6. \<^verbatim>\<open>fusePoses\<close> applied to the empty list returns, as a value and not as an
  error, the result whose position and rotation are \<open>(0, 0, 0)\<close>, whose \<open>poses\<close> and
  \<open>detectedMarkerIds\<close> are empty and whose timestamp is the clock reading of the call.
\<close>

theorem fusePoses_empty:
  "fusePoses now [] =
     \<lparr> poses = [],
       cameraPosition = \<lparr> Point3D.x = 0, y = 0, z = 0 \<rparr>,
       cameraRotation = \<lparr> EulerAngles.x = 0, y = 0, z = 0 \<rparr>,
       detectedMarkerIds = [],
       timestamp = now \<rparr>"
  by (simp add: fusePoses_def)

text \<open>
  Claim C9, as stated, asks two calls on equal lists to return results equal in every
  field. The timestamp is read from the clock at each call, so two calls made at
  different clock readings return different results.
\<close>

theorem fusePoses_clock_counterexample:
  "fusePoses 1000 [example_pose_a] \<noteq> fusePoses 1001 [example_pose_a]"
  by (simp add: fusePoses_def Let_def)

text \<open>
  Claim C9, amended. Two calls of \<^verbatim>\<open>fusePoses\<close> on equal input lists return results
  with equal \<open>poses\<close>, \<open>cameraPosition\<close>, \<open>cameraRotation\<close> and
  \<open>detectedMarkerIds\<close>; the timestamp of each result is the clock reading of its call,
  and the two results are equal in every field when the two readings are equal.
\<close>

theorem fusePoses_deterministic:
  "ps = qs \<Longrightarrow>
     poses (fusePoses t1 ps) = poses (fusePoses t2 qs) \<and>
     cameraPosition (fusePoses t1 ps) = cameraPosition (fusePoses t2 qs) \<and>
     cameraRotation (fusePoses t1 ps) = cameraRotation (fusePoses t2 qs) \<and>
     detectedMarkerIds (fusePoses t1 ps) = detectedMarkerIds (fusePoses t2 qs) \<and>
     timestamp (fusePoses t1 ps) = t1 \<and> timestamp (fusePoses t2 qs) = t2 \<and>
     (t1 = t2 \<longrightarrow> fusePoses t1 ps = fusePoses t2 qs)"
  by (simp add: fusePoses_def Let_def)

theorem fusePoses_deterministic_witness:
  "[example_pose_a] = [example_pose_a] \<and>
   cameraPosition (fusePoses 1000 [example_pose_a]) = cameraPosition (fusePoses 1001 [example_pose_a]) \<and>
   timestamp (fusePoses 1000 [example_pose_a]) = 1000 \<and>
   timestamp (fusePoses 1001 [example_pose_a]) = 1001 \<and>
   fusePoses 1000 [example_pose_a] = fusePoses 1000 [example_pose_a]"
  using fusePoses_deterministic [of "[example_pose_a]" "[example_pose_a]" 1000 1001]
    fusePoses_deterministic [of "[example_pose_a]" "[example_pose_a]" 1000 1000]
  by simp

text \<open>
  Claim C10. For every input list, empty or not, the \<open>poses\<close> of the result is the
  input list, \<open>detectedMarkerIds\<close> has the length of \<open>poses\<close>, and its entry at
  each index is the \<open>markerId\<close> of the estimation at that index.
\<close>

theorem fusePoses_invariant:
  "poses (fusePoses now ps) = ps \<and>
   length (detectedMarkerIds (fusePoses now ps)) = length (poses (fusePoses now ps)) \<and>
   (\<forall>i < length (poses (fusePoses now ps)).
      detectedMarkerIds (fusePoses now ps) ! i = markerId (poses (fusePoses now ps) ! i))"
  by (simp add: fusePoses_def Let_def)

theorem fusePoses_invariant_witness:
  "poses (fusePoses 1000 [example_pose_a, example_pose_b]) = [example_pose_a, example_pose_b] \<and>
   length (detectedMarkerIds (fusePoses 1000 [example_pose_a, example_pose_b])) = 2 \<and>
   (1::nat) < length (poses (fusePoses 1000 [example_pose_a, example_pose_b])) \<and>
   detectedMarkerIds (fusePoses 1000 [example_pose_a, example_pose_b]) ! 1 = 3 \<and>
   markerId (poses (fusePoses 1000 [example_pose_a, example_pose_b]) ! 1) = 3"
  using fusePoses_invariant [of 1000 "[example_pose_a, example_pose_b]"]
  by (simp add: example_pose_b_def)

section \<open>Properties of the Euler-angle extraction\<close>

text \<open>
  Claim C2. With \<open>sy = sqrt (R[0,0]\<^sup>2 + R[1,0]\<^sup>2)\<close>: if \<open>sy \<ge> 1e-6\<close> the result is
  \<open>x = atan2 (R[2,1], R[2,2])\<close>, \<open>y = atan2 (-R[2,0], sy)\<close>,
  \<open>z = atan2 (R[1,0], R[0,0])\<close>; if \<open>sy < 1e-6\<close> it is
  \<open>x = atan2 (-R[1,2], R[1,1])\<close>, \<open>y = atan2 (-R[2,0], sy)\<close>, \<open>z = 0\<close>; each
  angle is multiplied by \<open>180 / \<pi>\<close>. In particular the yaw extracted from a matrix
  built from Euler angles whose pitch has cosine zero (pitch \<open>\<plusminus>90\<degree>\<close>) is \<open>0\<close>.
\<close>

theorem rotationMatrixToEuler_branches:
  "(1 / 1000000 \<le> sqrt ((mat_entry R 0 0)\<^sup>2 + (mat_entry R 1 0)\<^sup>2) \<longrightarrow>
      rotationMatrixToEuler R =
        \<lparr> EulerAngles.x = atan2 (mat_entry R 2 1) (mat_entry R 2 2) * (180 / pi),
          y = atan2 (- mat_entry R 2 0) (sqrt ((mat_entry R 0 0)\<^sup>2 + (mat_entry R 1 0)\<^sup>2))
                * (180 / pi),
          z = atan2 (mat_entry R 1 0) (mat_entry R 0 0) * (180 / pi) \<rparr>) \<and>
   (sqrt ((mat_entry R 0 0)\<^sup>2 + (mat_entry R 1 0)\<^sup>2) < 1 / 1000000 \<longrightarrow>
      rotationMatrixToEuler R =
        \<lparr> EulerAngles.x = atan2 (- mat_entry R 1 2) (mat_entry R 1 1) * (180 / pi),
          y = atan2 (- mat_entry R 2 0) (sqrt ((mat_entry R 0 0)\<^sup>2 + (mat_entry R 1 0)\<^sup>2))
                * (180 / pi),
          z = 0 \<rparr>) \<and>
   (cos (EulerAngles.y a) = 0 \<longrightarrow> EulerAngles.z (rotationMatrixToEuler (eulerToMatrix a)) = 0)"
proof (intro conjI impI)
  assume "1 / 1000000 \<le> sqrt ((mat_entry R 0 0)\<^sup>2 + (mat_entry R 1 0)\<^sup>2)"
  then show "rotationMatrixToEuler R =
        \<lparr> EulerAngles.x = atan2 (mat_entry R 2 1) (mat_entry R 2 2) * (180 / pi),
          y = atan2 (- mat_entry R 2 0) (sqrt ((mat_entry R 0 0)\<^sup>2 + (mat_entry R 1 0)\<^sup>2))
                * (180 / pi),
          z = atan2 (mat_entry R 1 0) (mat_entry R 0 0) * (180 / pi) \<rparr>"
    using rotationMatrixToEuler_regular [of R]
    by (simp add: mat_entry_def power2_eq_square degrees_def)
next
  assume "sqrt ((mat_entry R 0 0)\<^sup>2 + (mat_entry R 1 0)\<^sup>2) < 1 / 1000000"
  then show "rotationMatrixToEuler R =
        \<lparr> EulerAngles.x = atan2 (- mat_entry R 1 2) (mat_entry R 1 1) * (180 / pi),
          y = atan2 (- mat_entry R 2 0) (sqrt ((mat_entry R 0 0)\<^sup>2 + (mat_entry R 1 0)\<^sup>2))
                * (180 / pi),
          z = 0 \<rparr>"
    using rotationMatrixToEuler_singular [of R]
    by (simp add: mat_entry_def power2_eq_square degrees_def)
next
  assume "cos (EulerAngles.y a) = 0"
  then have "sqrt (eulerToMatrix a ! 0 * eulerToMatrix a ! 0 + eulerToMatrix a ! 3 * eulerToMatrix a ! 3)
      < 1 / 1000000"
    by (simp add: sy_eulerToMatrix)
  then show "EulerAngles.z (rotationMatrixToEuler (eulerToMatrix a)) = 0"
    by (simp add: rotationMatrixToEuler_singular degrees_def)
qed

theorem rotationMatrixToEuler_branches_witness:
  "1 / 1000000 \<le> sqrt ((mat_entry [1, 0, 0, 0, - 1, 0, 0, 0, - 1] 0 0)\<^sup>2
                        + (mat_entry [1, 0, 0, 0, - 1, 0, 0, 0, - 1] 1 0)\<^sup>2) \<and>
   rotationMatrixToEuler [1, 0, 0, 0, - 1, 0, 0, 0, - 1] =
     \<lparr> EulerAngles.x = 180, y = 0, z = 0 \<rparr> \<and>
   sqrt ((mat_entry [0, 0, 1, 0, 1, 0, - 1, 0, 0] 0 0)\<^sup>2
         + (mat_entry [0, 0, 1, 0, 1, 0, - 1, 0, 0] 1 0)\<^sup>2) < 1 / 1000000 \<and>
   rotationMatrixToEuler [0, 0, 1, 0, 1, 0, - 1, 0, 0] =
     \<lparr> EulerAngles.x = 0, y = 90, z = 0 \<rparr> \<and>
   cos (EulerAngles.y \<lparr> EulerAngles.x = 0, y = pi / 2, z = 1 \<rparr>) = 0 \<and>
   EulerAngles.z (rotationMatrixToEuler (eulerToMatrix \<lparr> EulerAngles.x = 0, y = pi / 2, z = 1 \<rparr>)) = 0"
  using rotationMatrixToEuler_branches
          [of "[1, 0, 0, 0, - 1, 0, 0, 0, - 1]" "\<lparr> EulerAngles.x = 0, y = pi / 2, z = 1 \<rparr>"]
        rotationMatrixToEuler_branches
          [of "[0, 0, 1, 0, 1, 0, - 1, 0, 0]" "\<lparr> EulerAngles.x = 0, y = pi / 2, z = 1 \<rparr>"]
  by (simp add: mat_entry_def atan2_def)

text \<open>
  Claim C4, as stated, quantifies over every angle triple whose pitch is below
  \<open>89\<degree>\<close>. The extraction returns roll and yaw in \<open>(-180\<degree>, 180\<degree>]\<close>, so a yaw
  of a full turn is not recovered: the matrix is the identity and the extracted yaw is
  \<open>0\<close>, not \<open>360\<close>.
\<close>

theorem euler_round_trip_counterexample:
  "\<bar>EulerAngles.y \<lparr> EulerAngles.x = 0, y = 0, z = 2 * pi \<rparr>\<bar> * (180 / pi) < 89 \<and>
   rotationMatrixToEuler (eulerToMatrix \<lparr> EulerAngles.x = 0, y = 0, z = 2 * pi \<rparr>) =
     \<lparr> EulerAngles.x = 0, y = 0, z = 0 \<rparr> \<and>
   degrees \<lparr> EulerAngles.x = 0, y = 0, z = 2 * pi \<rparr> = \<lparr> EulerAngles.x = 0, y = 0, z = 360 \<rparr>"
  by (simp add: rotationMatrixToEuler_def eulerToMatrix_def degrees_def atan2_def Let_def)

text \<open>
  Claim C4, amended. For every Euler-angle triple \<open>a\<close> (radians) with pitch of
  absolute value below \<open>89\<degree>\<close> and with roll and yaw in \<open>(-\<pi>, \<pi>]\<close>, the
  extraction applied to the matrix \<open>Rz \<cdot> Ry \<cdot> Rx\<close> built from \<open>a\<close> returns \<open>a\<close>,
  converted to degrees. In exact arithmetic the recovery is an equality.
\<close>

theorem euler_round_trip:
  assumes pitch: "\<bar>EulerAngles.y a\<bar> < 89 * pi / 180"
    and roll: "- pi < EulerAngles.x a" "EulerAngles.x a \<le> pi"
    and yaw: "- pi < EulerAngles.z a" "EulerAngles.z a \<le> pi"
  shows "rotationMatrixToEuler (eulerToMatrix a) = degrees a"
proof -
  let ?R = "eulerToMatrix a"
  let ?cy = "cos (EulerAngles.y a)"
  have cy: "1 / 90 < ?cy"
    using pitch by (rule cos_pitch_bound)
  then have pos: "0 < ?cy"
    by simp
  have sy: "sqrt (?R ! 0 * ?R ! 0 + ?R ! 3 * ?R ! 3) = ?cy"
    using pos by (simp add: sy_eulerToMatrix)
  have "\<bar>EulerAngles.y a\<bar> < pi"
    using pitch pi_gt_zero by linarith
  then have pitch': "- pi < EulerAngles.y a" "EulerAngles.y a \<le> pi"
    by linarith+
  have ex: "atan2 (?R ! 7) (?R ! 8) = EulerAngles.x a"
    using atan2_scale [OF pos, of "sin (EulerAngles.x a)" "cos (EulerAngles.x a)"]
      atan2_sin_cos [OF roll]
    by (simp add: eulerToMatrix_def Let_def)
  have ey: "atan2 (- (?R ! 6)) ?cy = EulerAngles.y a"
    using atan2_sin_cos [OF pitch'] by (simp add: eulerToMatrix_def Let_def)
  have ez: "atan2 (?R ! 3) (?R ! 0) = EulerAngles.z a"
    using atan2_scale [OF pos, of "sin (EulerAngles.z a)" "cos (EulerAngles.z a)"]
      atan2_sin_cos [OF yaw]
    by (simp add: eulerToMatrix_def Let_def mult.commute)
  have "1 / 1000000 \<le> sqrt (?R ! 0 * ?R ! 0 + ?R ! 3 * ?R ! 3)"
    using cy sy by simp
  then have "rotationMatrixToEuler ?R =
      degrees \<lparr> EulerAngles.x = atan2 (?R ! 7) (?R ! 8),
                y = atan2 (- (?R ! 6)) (sqrt (?R ! 0 * ?R ! 0 + ?R ! 3 * ?R ! 3)),
                z = atan2 (?R ! 3) (?R ! 0) \<rparr>"
    by (rule rotationMatrixToEuler_regular)
  then show ?thesis
    by (simp add: sy ex ey ez degrees_def)
qed

theorem euler_round_trip_witness:
  "\<bar>EulerAngles.y \<lparr> EulerAngles.x = pi / 2, y = pi / 4, z = pi \<rparr>\<bar> < 89 * pi / 180 \<and>
   - pi < EulerAngles.x \<lparr> EulerAngles.x = pi / 2, y = pi / 4, z = pi \<rparr> \<and>
   EulerAngles.x \<lparr> EulerAngles.x = pi / 2, y = pi / 4, z = pi \<rparr> \<le> pi \<and>
   - pi < EulerAngles.z \<lparr> EulerAngles.x = pi / 2, y = pi / 4, z = pi \<rparr> \<and>
   EulerAngles.z \<lparr> EulerAngles.x = pi / 2, y = pi / 4, z = pi \<rparr> \<le> pi \<and>
   rotationMatrixToEuler (eulerToMatrix \<lparr> EulerAngles.x = pi / 2, y = pi / 4, z = pi \<rparr>) =
     \<lparr> EulerAngles.x = 90, y = 45, z = 180 \<rparr>"
  using euler_round_trip [of "\<lparr> EulerAngles.x = pi / 2, y = pi / 4, z = pi \<rparr>"]
  by (simp add: degrees_def)

section \<open>Properties of the point transform\<close>

text \<open>
  Claim C7. The three single-axis rotations of \<^verbatim>\<open>markerToWorld\<close> (about X, then Y,
  then Z) yield the same point as the product of the matrix built in
  \<^verbatim>\<open>cameraRotationInWorld\<close> with the point; that matrix is \<open>Rz \<cdot> Ry \<cdot> Rx\<close>.
\<close>

theorem markerToWorld_rotation_paths:
  "markerToWorld p c r = vec_add (mat_vec (eulerToMatrix r) p) c \<and>
   markerToWorld p c r =
     vec_add (mat_vec (rot_z (EulerAngles.z r))
               (mat_vec (rot_y (EulerAngles.y r)) (mat_vec (rot_x (EulerAngles.x r)) p))) c \<and>
   eulerToMatrix r =
     mat_mul (rot_z (EulerAngles.z r)) (mat_mul (rot_y (EulerAngles.y r)) (rot_x (EulerAngles.x r)))"
proof (intro conjI)
  show "markerToWorld p c r = vec_add (mat_vec (eulerToMatrix r) p) c"
    by (simp add: markerToWorld_def eulerToMatrix_def mat_vec_def vec_add_def mat_entry_def
          Let_def algebra_simps)
  show "markerToWorld p c r =
     vec_add (mat_vec (rot_z (EulerAngles.z r))
               (mat_vec (rot_y (EulerAngles.y r)) (mat_vec (rot_x (EulerAngles.x r)) p))) c"
    by (simp add: markerToWorld_def mat_vec_def vec_add_def mat_entry_def
          rot_x_def rot_y_def rot_z_def Let_def algebra_simps)
  show "eulerToMatrix r =
     mat_mul (rot_z (EulerAngles.z r)) (mat_mul (rot_y (EulerAngles.y r)) (rot_x (EulerAngles.x r)))"
    by (rule eulerToMatrix_product)
qed

text \<open>
  Claim C8. With the rotation \<open>(0, 0, 0)\<close>, \<^verbatim>\<open>markerToWorld\<close> returns the sum of the
  point and the marker centre, as an equality.
\<close>

theorem markerToWorld_zero_rotation:
  "markerToWorld p c \<lparr> EulerAngles.x = 0, y = 0, z = 0 \<rparr> = vec_add p c"
  by (simp add: markerToWorld_def vec_add_def Let_def)

section \<open>Properties of the single-marker resolver\<close>

text \<open>
  Claim C3. When the identifier of the detection is in the marker table, with definition
  \<open>d\<close>, the solver reports success with rotation vector \<open>rv\<close> and translation
  vector \<open>tv\<close>, and \<open>R\<close> is the matrix the Rodrigues conversion returns for \<open>rv\<close>,
  the resolver returns an estimation whose position is \<^verbatim>\<open>markerToWorld\<close> applied to
  \<open>- R\<^sup>T \<cdot> tv\<close>, the centre and the rotation of \<open>d\<close>, and whose rotation is the
  Euler extraction (degrees) of \<open>(Rz \<cdot> Ry \<cdot> Rx) \<cdot> (R\<^sup>T \<cdot> diag (1, -1, -1))\<close>, where
  the single-axis rotations are those of the rotation of \<open>d\<close>.
\<close>

theorem estimateSingleMarkerPose_resolved:
  assumes known: "find (\<lambda>m. MarkerDefinition.id' m = MarkerDetection.id' marker) MARKER_DEFINITIONS
                    = Some d"
    and solved: "solvePnP_call cv marker = Inr (True, rv, tv)"
    and matrix: "Rodrigues cv rv = Inr R"
  shows "estimateSingleMarkerPose cv marker =
           Inr (Some \<lparr> position =
                    markerToWorld (vec_neg (mat_vec (mat_transpose R) (vec_of tv)))
                      (center d) (rotationToWorld d),
                  rotation =
                    rotationMatrixToEuler
                      (mat_mul
                        (mat_mul (rot_z (EulerAngles.z (rotationToWorld d)))
                          (mat_mul (rot_y (EulerAngles.y (rotationToWorld d)))
                                   (rot_x (EulerAngles.x (rotationToWorld d)))))
                        (mat_mul (mat_transpose R) (mat_diag 1 (- 1) (- 1)))),
                  rvec = rv,
                  tvec = tv,
                  markerId = MarkerDetection.id' marker \<rparr>)"
proof -
  obtain tv0 tv1 tv2 where tv: "tv = (tv0, tv1, tv2)"
    by (cases tv) auto
  show ?thesis
    unfolding estimateSingleMarkerPose_def known solved tv
    by (simp add: matrix Let_def camInMarker_extrinsic_inverse cameraRotationInWorld_product
          eulerToMatrix_product del: One_nat_def)
qed

theorem estimateSingleMarkerPose_resolved_witness:
  "find (\<lambda>m. MarkerDefinition.id' m = MarkerDetection.id' (example_marker 0)) MARKER_DEFINITIONS
     = Some (MARKER_DEFINITIONS ! 0) \<and>
   solvePnP_call (stub_cv (solved True) identity_matrix) (example_marker 0)
     = Inr (True, (0, 0, 0), (0, 0, 1)) \<and>
   Rodrigues (stub_cv (solved True) identity_matrix) (0, 0, 0)
     = Inr [1, 0, 0, 0, 1, 0, 0, 0, 1] \<and>
   estimateSingleMarkerPose (stub_cv (solved True) identity_matrix) (example_marker 0) =
     Inr (Some \<lparr> position = \<lparr> Point3D.x = 0, y = 0, z = - 47 / 50 \<rparr>,
            rotation = \<lparr> EulerAngles.x = 180, y = 0, z = 0 \<rparr>,
            rvec = (0, 0, 0),
            tvec = (0, 0, 1),
            markerId = 0 \<rparr>)"
proof -
  have known: "find (\<lambda>m. MarkerDefinition.id' m = MarkerDetection.id' (example_marker 0))
                 MARKER_DEFINITIONS = Some (MARKER_DEFINITIONS ! 0)"
    by (simp add: MARKER_DEFINITIONS_def example_marker_def)
  have solved: "solvePnP_call (stub_cv (solved True) identity_matrix) (example_marker 0)
                  = Inr (True, (0, 0, 0), (0, 0, 1))"
    by (simp add: solvePnP_call_def stub_cv_def solved_def Let_def split: prod.splits)
  have d: "center (MARKER_DEFINITIONS ! 0) = \<lparr> Point3D.x = 0, y = 0, z = 3 / 50 \<rparr>"
      "rotationToWorld (MARKER_DEFINITIONS ! 0) = \<lparr> EulerAngles.x = 0, y = 0, z = 0 \<rparr>"
    by (simp_all add: MARKER_DEFINITIONS_def HALF_CUBE_def CUBE_SIZE_def)
  have r: "Rodrigues (stub_cv (solved True) identity_matrix) (0, 0, 0)
             = Inr [1, 0, 0, 0, 1, 0, 0, 0, 1]"
    by (simp add: stub_cv_def identity_matrix_def)
  have pos: "markerToWorld (vec_neg (mat_vec (mat_transpose [1, 0, 0, 0, 1, 0, 0, 0, 1]) (vec_of (0, 0, 1))))
               \<lparr> Point3D.x = 0, y = 0, z = 3 / 50 \<rparr> \<lparr> EulerAngles.x = 0, y = 0, z = 0 \<rparr>
             = \<lparr> Point3D.x = 0, y = 0, z = - 47 / 50 \<rparr>"
    by (simp add: markerToWorld_def vec_neg_def mat_vec_def mat_transpose_def mat_entry_def
          vec_of_def upt_3 Let_def)
  have m: "mat_mul (mat_mul (rot_z 0) (mat_mul (rot_y 0) (rot_x 0)))
             (mat_mul (mat_transpose [1, 0, 0, 0, 1, 0, 0, 0, 1]) (mat_diag 1 (- 1) (- 1)))
           = [1, 0, 0, 0, - 1, 0, 0, 0, - 1]"
    by (simp add: mat_mul_def mat_transpose_def mat_diag_def mat_entry_def rot_x_def rot_y_def
          rot_z_def upt_3)
  have rot: "rotationMatrixToEuler [1, 0, 0, 0, - 1, 0, 0, 0, - 1]
             = \<lparr> EulerAngles.x = 180, y = 0, z = 0 \<rparr>"
    by (simp add: rotationMatrixToEuler_def atan2_def Let_def)
  show ?thesis
    using estimateSingleMarkerPose_resolved [OF known solved r] known solved r
    by (simp add: d pos m rot example_marker_def)
qed




end
